theory Spec2Isabelle
  imports Complex_Main
begin

section \<open>Multiplayer rooms of the Diablo Web backend\<close>

text \<open>
  The backend keeps its rooms in the collection \<open>multiplayerrooms\<close> and serves four
  routes on it: list, create, join and leave. \<open>src/server/index.js\<close> is the Mongoose
  version of the server; two further versions of the same routes are embedded in the
  later sections. Each handler is modelled as one atomic function from the database, the
  authenticated user and the request body to the HTTP reply, the new database and the
  Socket.IO events it emits. The reading of \<open>Date.now\<close> is an argument of the handlers.
  Requests have passed \<open>authenticateToken\<close>, and every database call succeeds.

  Numbers of the request body and of the documents are rationals (a JSON number may
  have a fraction), a room's \<open>_id\<close> (an ObjectId) is a natural number drawn from a
  counter, and a user id is a string.
\<close>

subsection \<open>Documents\<close>

type_synonym uid = string

datatype status = Waiting | InGame | Closed

record player =
  userId :: uid
  playerName :: string
  characterClass :: string
  level :: rat
  joinedAt :: nat

text \<open>\<open>password = None\<close> is a document without the field (\<open>undefined\<close>).\<close>

record room =
  room_id :: nat
  name :: string
  host :: uid
  players :: "player list"
  maxPlayers :: rat
  isPublic :: bool
  status :: status
  password :: "string option"
  createdAt :: nat

text \<open>
  The database: the users (id and username), the rooms in insertion order, and the
  counter the next \<open>_id\<close> is taken from.
\<close>

record db =
  users :: "(uid \<times> string) list"
  rooms :: "room list"
  next_id :: nat

definition init :: "(uid \<times> string) list \<Rightarrow> db" where
  "init us = \<lparr>users = us, rooms = [], next_id = 0\<rparr>"

subsection \<open>What a client receives\<close>

text \<open>
  The \<open>host\<close> of a serialised room is the bare id, or after
  \<open>populate('host', 'username')\<close> the user's id and username (\<open>null\<close> when there is no
  such user), or an object with a username only. \<open>s_password = None\<close> is a JSON object
  without the \<open>password\<close> field, \<open>s_id = None\<close> one without the room's id.
\<close>

datatype host_json = HostId uid | HostUser uid string | HostName string | HostNull

record snapshot =
  s_id :: "nat option"
  s_name :: string
  s_host :: host_json
  s_players :: "player list"
  s_maxPlayers :: rat
  s_isPublic :: bool
  s_status :: status
  s_password :: "string option"
  s_createdAt :: nat

datatype payload = Snapshot snapshot | RoomId nat

text \<open>\<open>Emit\<close> is \<open>io.emit\<close> (every connected client), \<open>EmitTo r\<close> is \<open>io.to(r).emit\<close>.\<close>

datatype event = Emit string payload | EmitTo nat string payload

text \<open>
  The error replies of the routes, by the spec's names:
  \<^item> \<open>ValidationError\<close>: 400 \<open>Room name required\<close>, 400 \<open>Room ID and player name required\<close>;
  \<^item> \<open>NotFound\<close>: 404 \<open>User not found\<close>, 404 \<open>Room not found\<close>;
  \<^item> \<open>InvalidState\<close>: 400 \<open>Room is not accepting players\<close>;
  \<^item> \<open>RoomFull\<close>: 400 \<open>Room is full\<close>;
  \<^item> \<open>Unauthorized\<close>: 401 \<open>Invalid room password\<close>;
  \<^item> \<open>AlreadyJoined\<close>: 400 \<open>Already in room\<close>;
  \<^item> \<open>InternalError\<close>: 500 \<open>Internal server error\<close>, the reply of every \<open>catch\<close> block.
\<close>

datatype error = ValidationError | NotFound | InvalidState | RoomFull | Unauthorized | AlreadyJoined
  | InternalError

datatype reply = RoomJson snapshot | Message string

type_synonym outcome = "(error + reply) \<times> db \<times> event list"

definition reply_of :: "outcome \<Rightarrow> error + reply" where
  "reply_of out = fst out"

definition db_of :: "outcome \<Rightarrow> db" where
  "db_of out = fst (snd out)"

definition events_of :: "outcome \<Rightarrow> event list" where
  "events_of out = snd (snd out)"

subsection \<open>The request body\<close>

text \<open>\<open>req.body\<close>: every field may be missing (\<open>None\<close>).\<close>

record body =
  b_name :: "string option"
  b_maxPlayers :: "rat option"
  b_isPublic :: "bool option"
  b_password :: "string option"
  b_playerName :: "string option"
  b_characterClass :: "string option"
  b_level :: "rat option"
  b_roomId :: "nat option"

definition no_body :: body where
  "no_body = \<lparr>b_name = None, b_maxPlayers = None, b_isPublic = None, b_password = None,
     b_playerName = None, b_characterClass = None, b_level = None, b_roomId = None\<rparr>"

text \<open>
  JavaScript truthiness of an optional string and of an optional number:
  \<open>truthy_str x\<close> is \<open>x || undefined\<close>, \<open>str_or x d\<close> is \<open>x || d\<close>, \<open>num_or x d\<close> is \<open>x || d\<close>.
\<close>

definition truthy_str :: "string option \<Rightarrow> string option" where
  "truthy_str x = (case x of None \<Rightarrow> None | Some s \<Rightarrow> if s = [] then None else Some s)"

definition str_or :: "string option \<Rightarrow> string \<Rightarrow> string" where
  "str_or x d = (case truthy_str x of None \<Rightarrow> d | Some s \<Rightarrow> s)"

definition num_or :: "rat option \<Rightarrow> rat \<Rightarrow> rat" where
  "num_or x d = (case x of None \<Rightarrow> d | Some n \<Rightarrow> if n = 0 then d else n)"

subsection \<open>Collection operations\<close>

definition findById :: "nat \<Rightarrow> db \<Rightarrow> room option" where
  "findById rid d = find (\<lambda>r. room_id r = rid) (rooms d)"

definition insert_room :: "room \<Rightarrow> db \<Rightarrow> db" where
  "insert_room r d = d\<lparr>rooms := rooms d @ [r], next_id := Suc (next_id d)\<rparr>"

definition save :: "room \<Rightarrow> db \<Rightarrow> db" where
  "save r d = d\<lparr>rooms := map (\<lambda>x. if room_id x = room_id r then r else x) (rooms d)\<rparr>"

definition findByIdAndDelete :: "nat \<Rightarrow> db \<Rightarrow> db" where
  "findByIdAndDelete rid d = d\<lparr>rooms := filter (\<lambda>r. room_id r \<noteq> rid) (rooms d)\<rparr>"

definition to_json :: "room \<Rightarrow> snapshot" where
  "to_json r = \<lparr>s_id = Some (room_id r), s_name = name r, s_host = HostId (host r),
     s_players = players r, s_maxPlayers = maxPlayers r, s_isPublic = isPublic r,
     s_status = status r, s_password = password r, s_createdAt = createdAt r\<rparr>"

definition populate :: "(uid \<times> string) list \<Rightarrow> snapshot \<Rightarrow> snapshot" where
  "populate us s =
     (case s_host s of
        HostId h \<Rightarrow> s\<lparr>s_host := (case map_of us h of None \<Rightarrow> HostNull | Some n \<Rightarrow> HostUser h n)\<rparr>
      | _ \<Rightarrow> s)"

definition select_no_password :: "snapshot \<Rightarrow> snapshot" where
  "select_no_password s = s\<lparr>s_password := None\<rparr>"

subsection \<open>The documents a request builds\<close>

text \<open>
  The three versions of the server build the same player and the same room from a
  request. \<open>new_player now u pname b\<close> is the object literal
  \<^verbatim>\<open>{ userId, playerName, characterClass: characterClass || 'Warrior', level: level || 1 }\<close>
  with \<open>joinedAt\<close> the current time (the schema default \<open>Date.now\<close> in the Mongoose
  version, \<open>new Date()\<close> in the other two). \<open>new_room\<close> is the room of the create route:
  \<open>maxPlayers || 4\<close>, \<open>isPublic !== false\<close>, \<open>password || undefined\<close> (\<open>|| null\<close> on
  Firestore; both are \<open>None\<close> here), the creator as host and only player, status
  \<open>waiting\<close>.
\<close>

definition new_player :: "nat \<Rightarrow> uid \<Rightarrow> string \<Rightarrow> body \<Rightarrow> player" where
  "new_player now u pname b =
     \<lparr>userId = u, playerName = pname,
      characterClass = str_or (b_characterClass b) ''Warrior'',
      level = num_or (b_level b) 1,
      joinedAt = now\<rparr>"

definition new_room :: "nat \<Rightarrow> nat \<Rightarrow> uid \<Rightarrow> string \<Rightarrow> string \<Rightarrow> body \<Rightarrow> room" where
  "new_room rid now u nm username b =
     \<lparr>room_id = rid, name = nm, host = u,
      players = [new_player now u (str_or (b_playerName b) username) b],
      maxPlayers = num_or (b_maxPlayers b) 4,
      isPublic = (b_isPublic b \<noteq> Some False),
      status = Waiting,
      password = truthy_str (b_password b),
      createdAt = now\<rparr>"

subsection \<open>The routes of \<open>src/server/index.js\<close>\<close>

text \<open>
  The create and join routes answer and emit the room re-read with
  \<open>populate('host', 'username')\<close> and \<open>select('-password')\<close>; the leave route emits the
  document it holds.
\<close>

definition list_rooms :: "db \<Rightarrow> snapshot list" where
  "list_rooms d =
     map (\<lambda>r. select_no_password (populate (users d) (to_json r)))
       (rev (sort_key createdAt (filter (\<lambda>r. status r = Waiting \<and> isPublic r) (rooms d))))"

definition create_room :: "nat \<Rightarrow> uid \<Rightarrow> body \<Rightarrow> db \<Rightarrow> outcome" where
  "create_room now u b d =
     (case truthy_str (b_name b) of
        None \<Rightarrow> (Inl ValidationError, d, [])
      | Some nm \<Rightarrow>
          (case map_of (users d) u of
             None \<Rightarrow> (Inl NotFound, d, [])
           | Some username \<Rightarrow>
               let r = new_room (next_id d) now u nm username b;
                   d' = insert_room r d;
                   populatedRoom = select_no_password (populate (users d') (to_json r))
               in (Inr (RoomJson populatedRoom), d',
                   [Emit ''room-created'' (Snapshot populatedRoom)])))"

definition join_room :: "nat \<Rightarrow> uid \<Rightarrow> body \<Rightarrow> db \<Rightarrow> outcome" where
  "join_room now u b d =
     (case b_roomId b of
        None \<Rightarrow> (Inl ValidationError, d, [])
      | Some roomId \<Rightarrow>
     (case truthy_str (b_playerName b) of
        None \<Rightarrow> (Inl ValidationError, d, [])
      | Some pname \<Rightarrow>
     (case findById roomId d of
        None \<Rightarrow> (Inl NotFound, d, [])
      | Some r \<Rightarrow>
          if status r \<noteq> Waiting then (Inl InvalidState, d, [])
          else if of_nat (length (players r)) \<ge> maxPlayers r then (Inl RoomFull, d, [])
          else if truthy_str (password r) \<noteq> None \<and> password r \<noteq> b_password b
            then (Inl Unauthorized, d, [])
          else if find (\<lambda>p. userId p = u) (players r) \<noteq> None then (Inl AlreadyJoined, d, [])
          else
            let r' = r\<lparr>players := players r @ [new_player now u pname b]\<rparr>;
                d' = save r' d;
                populatedRoom = select_no_password (populate (users d') (to_json r'))
            in (Inr (RoomJson populatedRoom), d',
                [EmitTo roomId ''player-joined'' (Snapshot populatedRoom)]))))"

definition leave_room :: "uid \<Rightarrow> body \<Rightarrow> db \<Rightarrow> outcome" where
  "leave_room u b d =
     (case b_roomId b of
        None \<Rightarrow> (Inl NotFound, d, [])
      | Some roomId \<Rightarrow>
     (case findById roomId d of
        None \<Rightarrow> (Inl NotFound, d, [])
      | Some r \<Rightarrow>
          (case filter (\<lambda>p. userId p \<noteq> u) (players r) of
             [] \<Rightarrow> (Inr (Message ''Left room successfully''), findByIdAndDelete roomId d,
                    [Emit ''room-closed'' (RoomId roomId)])
           | p0 # ps \<Rightarrow>
               let r' = r\<lparr>players := p0 # ps,
                          host := (if host r = u then userId p0 else host r)\<rparr>
               in (Inr (Message ''Left room successfully''), save r' d,
                   [EmitTo roomId ''player-left'' (Snapshot (to_json r'))]))))"

subsection \<open>The join route between its awaits\<close>

text \<open>
  The join handler waits for the database twice: for \<open>findById\<close>, and for \<open>save\<close>.
  Another handler may run while it waits. \<open>join_read\<close> is the handler from the document
  that \<open>findById\<close> returned up to the call of \<open>save\<close>: every check, and the push of the
  new player onto the document as read. \<open>join_write\<close> is the rest: \<open>save\<close> sends the
  push, which appends the player to the array that the collection holds at that moment,
  then the room is read again, emitted and answered. When the room is gone by then,
  \<open>save\<close> finds no document and the \<open>catch\<close> block answers.
\<close>

datatype admission = Rejected error | Admitted nat player

definition join_read :: "nat \<Rightarrow> uid \<Rightarrow> body \<Rightarrow> db \<Rightarrow> admission" where
  "join_read now u b d =
     (case b_roomId b of
        None \<Rightarrow> Rejected ValidationError
      | Some roomId \<Rightarrow>
     (case truthy_str (b_playerName b) of
        None \<Rightarrow> Rejected ValidationError
      | Some pname \<Rightarrow>
     (case findById roomId d of
        None \<Rightarrow> Rejected NotFound
      | Some r \<Rightarrow>
          if status r \<noteq> Waiting then Rejected InvalidState
          else if of_nat (length (players r)) \<ge> maxPlayers r then Rejected RoomFull
          else if truthy_str (password r) \<noteq> None \<and> password r \<noteq> b_password b
            then Rejected Unauthorized
          else if find (\<lambda>p. userId p = u) (players r) \<noteq> None then Rejected AlreadyJoined
          else Admitted roomId (new_player now u pname b))))"

definition join_write :: "nat \<Rightarrow> player \<Rightarrow> db \<Rightarrow> outcome" where
  "join_write roomId p d =
     (case findById roomId d of
        None \<Rightarrow> (Inl InternalError, d, [])
      | Some cur \<Rightarrow>
          let r' = cur\<lparr>players := players cur @ [p]\<rparr>;
              d' = save r' d;
              populatedRoom = select_no_password (populate (users d') (to_json r'))
          in (Inr (RoomJson populatedRoom), d',
              [EmitTo roomId ''player-joined'' (Snapshot populatedRoom)]))"

definition join_finish :: "admission \<Rightarrow> db \<Rightarrow> outcome" where
  "join_finish a d =
     (case a of Rejected e \<Rightarrow> (Inl e, d, []) | Admitted roomId p \<Rightarrow> join_write roomId p d)"

text \<open>
  Two joins, each of them read and written. In turn: the second is read after the first
  is written. Interleaved: both are read before either is written. The result is the
  two replies and the database after both.
\<close>

definition joins_in_turn ::
  "nat \<Rightarrow> uid \<Rightarrow> body \<Rightarrow> nat \<Rightarrow> uid \<Rightarrow> body \<Rightarrow> db \<Rightarrow> (error + reply) \<times> (error + reply) \<times> db" where
  "joins_in_turn t1 u1 b1 t2 u2 b2 d =
     (let a1 = join_read t1 u1 b1 d;
          o1 = join_finish a1 d;
          a2 = join_read t2 u2 b2 (db_of o1);
          o2 = join_finish a2 (db_of o1)
      in (reply_of o1, reply_of o2, db_of o2))"

definition joins_interleaved ::
  "nat \<Rightarrow> uid \<Rightarrow> body \<Rightarrow> nat \<Rightarrow> uid \<Rightarrow> body \<Rightarrow> db \<Rightarrow> (error + reply) \<times> (error + reply) \<times> db" where
  "joins_interleaved t1 u1 b1 t2 u2 b2 d =
     (let a1 = join_read t1 u1 b1 d;
          a2 = join_read t2 u2 b2 d;
          o1 = join_finish a1 d;
          o2 = join_finish a2 (db_of o1)
      in (reply_of o1, reply_of o2, db_of o2))"

subsection \<open>The same routes on the MongoDB driver (\<open>src/unnamed/part_002\<close>)\<close>

text \<open>
  This version reads and writes the collection directly. Its create route answers the
  room object it inserted, with \<open>host\<close> replaced by \<open>{ username }\<close>; its join route
  answers the document re-read after \<open>$push\<close>, with \<open>host\<close> replaced by the user found;
  its leave route emits the document re-read after \<open>$pull\<close>, before the host is set.
  None of them removes the password.
\<close>

definition create_room_mongo :: "nat \<Rightarrow> uid \<Rightarrow> body \<Rightarrow> db \<Rightarrow> outcome" where
  "create_room_mongo now u b d =
     (case truthy_str (b_name b) of
        None \<Rightarrow> (Inl ValidationError, d, [])
      | Some nm \<Rightarrow>
          (case map_of (users d) u of
             None \<Rightarrow> (Inl NotFound, d, [])
           | Some username \<Rightarrow>
               let r = new_room (next_id d) now u nm username b;
                   d' = insert_room r d;
                   populatedRoom = (to_json r)\<lparr>s_host := HostName username\<rparr>
               in (Inr (RoomJson populatedRoom), d',
                   [Emit ''room-created'' (Snapshot populatedRoom)])))"

definition join_room_mongo :: "nat \<Rightarrow> uid \<Rightarrow> body \<Rightarrow> db \<Rightarrow> outcome" where
  "join_room_mongo now u b d =
     (case b_roomId b of
        None \<Rightarrow> (Inl ValidationError, d, [])
      | Some roomId \<Rightarrow>
     (case truthy_str (b_playerName b) of
        None \<Rightarrow> (Inl ValidationError, d, [])
      | Some pname \<Rightarrow>
     (case findById roomId d of
        None \<Rightarrow> (Inl NotFound, d, [])
      | Some r \<Rightarrow>
          if status r \<noteq> Waiting then (Inl InvalidState, d, [])
          else if of_nat (length (players r)) \<ge> maxPlayers r then (Inl RoomFull, d, [])
          else if truthy_str (password r) \<noteq> None \<and> password r \<noteq> b_password b
            then (Inl Unauthorized, d, [])
          else if find (\<lambda>p. userId p = u) (players r) \<noteq> None then (Inl AlreadyJoined, d, [])
          else
            let r' = r\<lparr>players := players r @ [new_player now u pname b]\<rparr>;
                d' = save r' d;
                updatedRoom = populate (users d') (to_json r')
            in (Inr (RoomJson updatedRoom), d',
                [EmitTo roomId ''player-joined'' (Snapshot updatedRoom)]))))"

text \<open>
  Without a \<open>roomId\<close>, \<open>new ObjectId(undefined)\<close> is a fresh id, which no room has.
\<close>

definition leave_room_mongo :: "uid \<Rightarrow> body \<Rightarrow> db \<Rightarrow> outcome" where
  "leave_room_mongo u b d =
     (case b_roomId b of
        None \<Rightarrow> (Inl NotFound, d, [])
      | Some roomId \<Rightarrow>
     (case findById roomId d of
        None \<Rightarrow> (Inl NotFound, d, [])
      | Some r \<Rightarrow>
          let updatedRoom = r\<lparr>players := filter (\<lambda>p. userId p \<noteq> u) (players r)\<rparr>;
              d1 = save updatedRoom d
          in (case players updatedRoom of
                [] \<Rightarrow> (Inr (Message ''Left room successfully''), findByIdAndDelete roomId d1,
                       [Emit ''room-closed'' (RoomId roomId)])
              | p0 # ps \<Rightarrow>
                  (Inr (Message ''Left room successfully''),
                   (if host r = u then save (updatedRoom\<lparr>host := userId p0\<rparr>) d1 else d1),
                   [EmitTo roomId ''player-left'' (Snapshot (to_json updatedRoom))]))))"

subsection \<open>The same routes on Firestore (\<open>src/unnamed/part_003\<close>)\<close>

text \<open>
  Here the users' names are their \<open>displayName\<close>. The leave route builds the reference
  with \<open>doc(roomId)\<close>, which throws without a \<open>roomId\<close>, and the \<open>catch\<close> block answers;
  it emits \<open>doc.data()\<close> of the room re-read after the update.
\<close>

definition create_room_firestore :: "nat \<Rightarrow> uid \<Rightarrow> body \<Rightarrow> db \<Rightarrow> outcome" where
  "create_room_firestore now u b d =
     (case truthy_str (b_name b) of
        None \<Rightarrow> (Inl ValidationError, d, [])
      | Some nm \<Rightarrow>
          (case map_of (users d) u of
             None \<Rightarrow> (Inl NotFound, d, [])
           | Some displayName \<Rightarrow>
               let r = new_room (next_id d) now u nm displayName b;
                   d' = insert_room r d;
                   populatedRoom = (to_json r)\<lparr>s_host := HostName displayName\<rparr>
               in (Inr (RoomJson populatedRoom), d',
                   [Emit ''room-created'' (Snapshot populatedRoom)])))"

text \<open>\<open>doc.data()\<close>: the fields of the stored document, without its id.\<close>

definition to_data :: "room \<Rightarrow> snapshot" where
  "to_data r = (to_json r)\<lparr>s_id := None\<rparr>"

text \<open>
  The join route reaches \<open>admin.firestore.FieldValue.arrayUnion(newPlayer)\<close> when every
  check has passed; \<open>admin\<close> is a constant of \<open>authenticateToken\<close> only, so the
  expression throws, nothing is written and the \<open>catch\<close> block answers.
\<close>

definition join_room_firestore :: "nat \<Rightarrow> uid \<Rightarrow> body \<Rightarrow> db \<Rightarrow> outcome" where
  "join_room_firestore now u b d =
     (case b_roomId b of
        None \<Rightarrow> (Inl ValidationError, d, [])
      | Some roomId \<Rightarrow>
     (case truthy_str (b_playerName b) of
        None \<Rightarrow> (Inl ValidationError, d, [])
      | Some pname \<Rightarrow>
     (case findById roomId d of
        None \<Rightarrow> (Inl NotFound, d, [])
      | Some r \<Rightarrow>
          if status r \<noteq> Waiting then (Inl InvalidState, d, [])
          else if of_nat (length (players r)) \<ge> maxPlayers r then (Inl RoomFull, d, [])
          else if truthy_str (password r) \<noteq> None \<and> password r \<noteq> b_password b
            then (Inl Unauthorized, d, [])
          else if find (\<lambda>p. userId p = u) (players r) \<noteq> None then (Inl AlreadyJoined, d, [])
          else (Inl InternalError, d, []))))"

definition leave_room_firestore :: "uid \<Rightarrow> body \<Rightarrow> db \<Rightarrow> outcome" where
  "leave_room_firestore u b d =
     (case b_roomId b of
        None \<Rightarrow> (Inl InternalError, d, [])
      | Some roomId \<Rightarrow>
     (case findById roomId d of
        None \<Rightarrow> (Inl NotFound, d, [])
      | Some r \<Rightarrow>
          (case filter (\<lambda>p. userId p \<noteq> u) (players r) of
             [] \<Rightarrow> (Inr (Message ''Left room successfully''), findByIdAndDelete roomId d,
                    [Emit ''room-closed'' (RoomId roomId)])
           | p0 # ps \<Rightarrow>
               let newHost = (if host r = u then userId p0 else host r);
                   updatedRoom = r\<lparr>players := p0 # ps, host := newHost\<rparr>
               in (Inr (Message ''Left room successfully''), save updatedRoom d,
                   [EmitTo roomId ''player-left'' (Snapshot (to_data updatedRoom))]))))"

subsection \<open>Runs of the server\<close>

text \<open>
  A request carries the user id that \<open>authenticateToken\<close> read from the token, and the
  body. A run handles timed requests one after the other from a starting database; the
  first component of each pair is the clock reading while that request is handled.
\<close>

datatype request = Create uid body | Join uid body | Leave uid body

fun handle :: "nat \<Rightarrow> request \<Rightarrow> db \<Rightarrow> outcome" where
  "handle now (Create u b) d = create_room now u b d"
| "handle now (Join u b) d = join_room now u b d"
| "handle now (Leave u b) d = leave_room u b d"

fun run :: "db \<Rightarrow> (nat \<times> request) list \<Rightarrow> db" where
  "run d [] = d"
| "run d (x # rest) = run (db_of (handle (fst x) (snd x) d)) rest"

subsection \<open>Properties of rooms\<close>

text \<open>The room invariant of the specification: between one and \<open>maxPlayers\<close> players, host among them.\<close>

definition room_ok :: "room \<Rightarrow> bool" where
  "room_ok r = (1 \<le> length (players r) \<and> of_nat (length (players r)) \<le> maxPlayers r
     \<and> host r \<in> set (map userId (players r)))"

definition rooms_ok :: "db \<Rightarrow> bool" where
  "rooms_ok d = list_all room_ok (rooms d)"

text \<open>
  A whole number. The \<open>maxPlayers\<close> a request supplies, and the requests that supply
  none, or a whole number that is not negative.
\<close>

definition whole :: "rat \<Rightarrow> bool" where
  "whole x = (of_int \<lfloor>x\<rfloor> = x)"

definition room_sound :: "room \<Rightarrow> bool" where
  "room_sound r = (room_ok r \<and> whole (maxPlayers r))"

definition rooms_whole :: "db \<Rightarrow> bool" where
  "rooms_whole d = list_all whole (map maxPlayers (rooms d))"

fun capacity_given :: "request \<Rightarrow> rat option" where
  "capacity_given (Create u b) = b_maxPlayers b"
| "capacity_given (Join u b) = None"
| "capacity_given (Leave u b) = None"

definition whole_capacity :: "request \<Rightarrow> bool" where
  "whole_capacity rq = (case capacity_given rq of None \<Rightarrow> True | Some n \<Rightarrow> 0 \<le> n \<and> whole n)"

definition whole_capacities :: "(nat \<times> request) list \<Rightarrow> bool" where
  "whole_capacities rqs = list_all whole_capacity (map snd rqs)"

text \<open>
  A room's players are in join order up to time \<open>t\<close>: their \<open>joinedAt\<close> never decreases
  along the array and none is later than \<open>t\<close>.
\<close>

definition in_join_order :: "nat \<Rightarrow> room \<Rightarrow> bool" where
  "in_join_order t r =
     (sorted (map joinedAt (players r)) \<and> list_all (\<lambda>p. joinedAt p \<le> t) (players r))"

definition rooms_in_join_order :: "nat \<Rightarrow> db \<Rightarrow> bool" where
  "rooms_in_join_order t d = list_all (in_join_order t) (rooms d)"

subsection \<open>Example data\<close>

definition lobby_users :: "(uid \<times> string) list" where
  "lobby_users = [(''u1'', ''alice''), (''u2'', ''bob''), (''u3'', ''carol'')]"

definition warriors_body :: body where
  "warriors_body = no_body\<lparr>b_name := Some ''Warriors'', b_maxPlayers := Some 2,
     b_password := Some ''secret''\<rparr>"

definition bob_body :: body where
  "bob_body = no_body\<lparr>b_roomId := Some 0, b_playerName := Some ''Bob'',
     b_password := Some ''secret''\<rparr>"

definition room0_body :: body where
  "room0_body = no_body\<lparr>b_roomId := Some 0\<rparr>"

text \<open>Alice has created the room \<open>Warriors\<close> (two places, password \<open>secret\<close>); Bob has joined it.\<close>

definition warriors_lobby :: db where
  "warriors_lobby = run (init lobby_users) [(5, Create ''u1'' warriors_body), (6, Join ''u2'' bob_body)]"

text \<open>Alice alone in a room of one place, without password.\<close>

definition duel_body :: body where
  "duel_body = no_body\<lparr>b_name := Some ''Duel'', b_maxPlayers := Some 1, b_password := Some []\<rparr>"

definition duel_lobby :: db where
  "duel_lobby = run (init lobby_users) [(5, Create ''u1'' duel_body)]"

definition open_body :: body where
  "open_body = no_body\<lparr>b_name := Some ''Open'', b_password := Some []\<rparr>"

definition open_lobby :: db where
  "open_lobby = run (init lobby_users) [(5, Create ''u1'' open_body)]"

definition nameless_join_body :: body where
  "nameless_join_body = no_body\<lparr>b_roomId := Some 0, b_playerName := Some []\<rparr>"

definition zero_capacity_body :: body where
  "zero_capacity_body = no_body\<lparr>b_name := Some ''Warriors'', b_maxPlayers := Some 0\<rparr>"

definition negative_capacity_body :: body where
  "negative_capacity_body = no_body\<lparr>b_name := Some ''Warriors'', b_maxPlayers := Some (- 1)\<rparr>"

definition private_body :: body where
  "private_body = no_body\<lparr>b_name := Some ''Private'', b_isPublic := Some False\<rparr>"

text \<open>The players and rooms that these requests produce.\<close>

definition alice_player :: player where
  "alice_player = \<lparr>userId = ''u1'', playerName = ''alice'', characterClass = ''Warrior'',
     level = 1, joinedAt = 5\<rparr>"

definition bob_player :: player where
  "bob_player = \<lparr>userId = ''u2'', playerName = ''Bob'', characterClass = ''Warrior'',
     level = 1, joinedAt = 6\<rparr>"

definition carol_player :: player where
  "carol_player = \<lparr>userId = ''u3'', playerName = ''Carol'', characterClass = ''Rogue'',
     level = 7, joinedAt = 8\<rparr>"

definition duel_room :: room where
  "duel_room = \<lparr>room_id = 0, name = ''Duel'', host = ''u1'', players = [alice_player],
     maxPlayers = 1, isPublic = True, status = Waiting, password = None, createdAt = 5\<rparr>"

definition open_room :: room where
  "open_room = \<lparr>room_id = 0, name = ''Open'', host = ''u1'', players = [alice_player],
     maxPlayers = 4, isPublic = True, status = Waiting, password = None, createdAt = 5\<rparr>"

definition guess_body :: body where
  "guess_body = no_body\<lparr>b_roomId := Some 0, b_playerName := Some ''Bob'',
     b_password := Some ''guess''\<rparr>"

text \<open>Alice, Bob and Carol, in this order, in a room of three places.\<close>

definition party_body :: body where
  "party_body = no_body\<lparr>b_name := Some ''Party'', b_maxPlayers := Some 3\<rparr>"

definition bob_party_body :: body where
  "bob_party_body = no_body\<lparr>b_roomId := Some 0, b_playerName := Some ''Bob''\<rparr>"

definition carol_party_body :: body where
  "carol_party_body = no_body\<lparr>b_roomId := Some 0, b_playerName := Some ''Carol'',
     b_characterClass := Some ''Rogue'', b_level := Some 7\<rparr>"

definition party_requests :: "(nat \<times> request) list" where
  "party_requests = [(5, Create ''u1'' party_body), (6, Join ''u2'' bob_party_body),
     (8, Join ''u3'' carol_party_body)]"

definition party_lobby :: db where
  "party_lobby = run (init lobby_users) party_requests"

definition party_room :: room where
  "party_room = \<lparr>room_id = 0, name = ''Party'', host = ''u1'',
     players = [alice_player, bob_player, carol_player],
     maxPlayers = 3, isPublic = True, status = Waiting, password = None, createdAt = 5\<rparr>"


text \<open>The same three requests, with a clock that is set back before Carol joins.\<close>

definition backwards_requests :: "(nat \<times> request) list" where
  "backwards_requests = [(5, Create ''u1'' party_body), (6, Join ''u2'' bob_party_body),
     (4, Join ''u3'' carol_party_body)]"

definition backwards_lobby :: db where
  "backwards_lobby = run (init lobby_users) backwards_requests"

text \<open>Alice alone in a room of two places, without password.\<close>

definition pair_body :: body where
  "pair_body = no_body\<lparr>b_name := Some ''Pair'', b_maxPlayers := Some 2\<rparr>"

definition pair_lobby :: db where
  "pair_lobby = run (init lobby_users) [(5, Create ''u1'' pair_body)]"

definition pair_room :: room where
  "pair_room = \<lparr>room_id = 0, name = ''Pair'', host = ''u1'', players = [alice_player],
     maxPlayers = 2, isPublic = True, status = Waiting, password = None, createdAt = 5\<rparr>"

definition half_capacity_body :: body where
  "half_capacity_body = no_body\<lparr>b_name := Some ''Warriors'', b_maxPlayers := Some (1 / 2)\<rparr>"

section \<open>Lemmas\<close>

lemmas outcome_defs = reply_of_def db_of_def events_of_def

lemmas js_defs = truthy_str_def str_or_def num_or_def

lemmas collection_defs = findById_def insert_room_def save_def findByIdAndDelete_def
  to_json_def populate_def select_no_password_def

lemmas route_defs = create_room_def join_room_def leave_room_def new_room_def new_player_def

lemma truthy_str_None: "(truthy_str x = None) = (x = None \<or> x = Some [])"
  by (cases x) (simp_all add: truthy_str_def)

lemma find_after_delete: "find (\<lambda>r. room_id r = rid) (filter (\<lambda>r. room_id r \<noteq> rid) rs) = None"
  by (induction rs) simp_all

lemma findById_deleted: "findById rid (findByIdAndDelete rid d) = None"
  by (simp add: findById_def findByIdAndDelete_def find_after_delete)

lemma findById_in_rooms: "findById rid d = Some r \<Longrightarrow> r \<in> set (rooms d) \<and> room_id r = rid"
  by (auto simp: findById_def find_Some_iff)

lemma save_list_all:
  "list_all P (rooms d) \<Longrightarrow> P r \<Longrightarrow> list_all P (rooms (save r d))"
  by (auto simp: save_def list_all_iff)

lemma delete_list_all:
  "list_all P (rooms d) \<Longrightarrow> list_all P (rooms (findByIdAndDelete rid d))"
  by (simp add: findByIdAndDelete_def list_all_iff)

lemma insert_list_all:
  "list_all P (rooms d) \<Longrightarrow> P r \<Longrightarrow> list_all P (rooms (insert_room r d))"
  by (simp add: insert_room_def)

lemma findById_list_all: "findById rid d = Some r \<Longrightarrow> list_all P (rooms d) \<Longrightarrow> P r"
  by (auto dest: findById_in_rooms simp: list_all_iff)

subsection \<open>The room invariant\<close>

lemma whole_next: "whole x \<Longrightarrow> of_nat n < x \<Longrightarrow> of_nat n + 1 \<le> x"
proof -
  assume w: "whole x" and lt: "of_nat n < x"
  have x: "x = of_int \<lfloor>x\<rfloor>" using w unfolding whole_def by (rule sym)
  have "rat_of_int (int n) < of_int \<lfloor>x\<rfloor>" using lt x by simp
  then have "int n < \<lfloor>x\<rfloor>" by (simp only: of_int_less_iff)
  then have "int n + 1 \<le> \<lfloor>x\<rfloor>" by simp
  then have "rat_of_int (int n + 1) \<le> of_int \<lfloor>x\<rfloor>" by (simp only: of_int_le_iff)
  then show ?thesis using x by simp
qed

lemma whole_positive: "whole x \<Longrightarrow> 0 \<le> x \<Longrightarrow> x \<noteq> 0 \<Longrightarrow> 1 \<le> x"
  using whole_next [of x 0] by simp

lemma whole_4: "whole 4"
  by (simp add: whole_def)

lemma num_or_capacity:
  "(case x of None \<Rightarrow> True | Some n \<Rightarrow> 0 \<le> n \<and> whole n) \<Longrightarrow>
     1 \<le> num_or x 4 \<and> whole (num_or x 4)"
  by (cases x) (auto simp: num_or_def whole_4 whole_positive)

lemma rooms_sound_iff: "list_all room_sound (rooms d) = (rooms_ok d \<and> rooms_whole d)"
  by (auto simp: rooms_ok_def rooms_whole_def room_sound_def list_all_iff)

lemma rooms_ok_init: "rooms_ok (init us) \<and> rooms_whole (init us)"
  by (simp add: rooms_ok_def rooms_whole_def init_def)

lemma create_room_ok:
  assumes "list_all room_sound (rooms d)"
    and "case b_maxPlayers b of None \<Rightarrow> True | Some n \<Rightarrow> 0 \<le> n \<and> whole n"
  shows "list_all room_sound (rooms (db_of (create_room now u b d)))"
proof -
  have "1 \<le> num_or (b_maxPlayers b) 4 \<and> whole (num_or (b_maxPlayers b) 4)"
    using assms(2) by (rule num_or_capacity)
  then show ?thesis using assms(1)
    by (auto simp: create_room_def new_room_def new_player_def db_of_def room_sound_def
        room_ok_def Let_def intro!: insert_list_all split: option.splits)
qed

lemma join_room_ok:
  assumes "list_all room_sound (rooms d)"
  shows "list_all room_sound (rooms (db_of (join_room now u b d)))"
proof (cases "\<exists>e. reply_of (join_room now u b d) = Inl e")
  case True
  then have "db_of (join_room now u b d) = d"
    by (auto simp: join_room_def outcome_defs Let_def split: option.splits if_splits)
  then show ?thesis using assms by simp
next
  case False
  then obtain rid pn r where r: "findById rid d = Some r"
    and small: "of_nat (length (players r)) < maxPlayers r"
    and d': "db_of (join_room now u b d) =
               save (r\<lparr>players := players r @ [new_player now u pn b]\<rparr>) d"
    by (auto simp: join_room_def outcome_defs Let_def split: option.splits if_splits)
  have ok: "room_sound r" using r assms by (rule findById_list_all)
  then have "of_nat (length (players r)) + 1 \<le> maxPlayers r"
    using small by (simp add: room_sound_def whole_next)
  then have "room_sound (r\<lparr>players := players r @ [new_player now u pn b]\<rparr>)"
    using ok by (auto simp: room_sound_def room_ok_def add.commute)
  then show ?thesis using assms unfolding d' by (intro save_list_all)
qed

lemma filter_keeps_host:
  "h \<in> set (map userId ps) \<Longrightarrow> h \<noteq> u \<Longrightarrow> h \<in> set (map userId (filter (\<lambda>p. userId p \<noteq> u) ps))"
  by (induction ps) auto

lemma leave_room_ok:
  assumes "list_all room_sound (rooms d)"
  shows "list_all room_sound (rooms (db_of (leave_room u b d)))"
proof (cases "b_roomId b")
  case None
  then show ?thesis using assms by (simp add: leave_room_def db_of_def)
next
  case (Some rid)
  show ?thesis
  proof (cases "findById rid d")
    case None
    then show ?thesis using assms Some by (simp add: leave_room_def db_of_def)
  next
    case (Some r)
    have ok: "room_sound r" using Some assms by (rule findById_list_all)
    show ?thesis
    proof (cases "filter (\<lambda>p. userId p \<noteq> u) (players r)")
      case Nil
      then show ?thesis using assms Some \<open>b_roomId b = Some rid\<close>
        by (simp add: leave_room_def db_of_def delete_list_all)
    next
      case (Cons p0 ps)
      have len: "length (p0 # ps) \<le> length (players r)"
        using length_filter_le [of "\<lambda>p. userId p \<noteq> u" "players r"] Cons by simp
      then have len': "rat_of_nat (length (p0 # ps)) \<le> of_nat (length (players r))"
        by (simp only: of_nat_le_iff)
      have hostin: "host r \<noteq> u \<Longrightarrow> host r \<in> set (map userId (p0 # ps))"
        using filter_keeps_host [of "host r" "players r" u] ok Cons
        by (simp add: room_sound_def room_ok_def)
      have "room_sound (r\<lparr>players := p0 # ps, host := (if host r = u then userId p0 else host r)\<rparr>)"
        using len' hostin ok by (auto simp: room_sound_def room_ok_def)
      then show ?thesis using assms Some Cons \<open>b_roomId b = Some rid\<close>
        by (simp add: leave_room_def db_of_def save_list_all Let_def)
    qed
  qed
qed

lemma handle_ok:
  "list_all room_sound (rooms d) \<Longrightarrow> whole_capacity rq \<Longrightarrow>
     list_all room_sound (rooms (db_of (handle now rq d)))"
  by (cases rq) (simp_all add: whole_capacity_def create_room_ok join_room_ok leave_room_ok)

lemma run_ok:
  "list_all room_sound (rooms d) \<Longrightarrow> whole_capacities rqs \<Longrightarrow>
     list_all room_sound (rooms (run d rqs))"
  by (induction rqs arbitrary: d) (simp_all add: handle_ok whole_capacities_def)

subsection \<open>Join order\<close>

lemma in_join_order_later: "in_join_order t r \<Longrightarrow> t \<le> t' \<Longrightarrow> in_join_order t' r"
  by (auto simp: in_join_order_def list_all_iff)

lemma rooms_in_join_order_later:
  "rooms_in_join_order t d \<Longrightarrow> t \<le> t' \<Longrightarrow> rooms_in_join_order t' d"
  by (auto simp: rooms_in_join_order_def list_all_iff intro: in_join_order_later)

lemma create_room_join_order:
  assumes "rooms_in_join_order now d"
  shows "rooms_in_join_order now (db_of (create_room now u b d))"
  using assms
  by (auto simp: create_room_def new_room_def new_player_def db_of_def rooms_in_join_order_def
      in_join_order_def Let_def intro!: insert_list_all split: option.splits)

lemma join_room_join_order:
  assumes "rooms_in_join_order now d"
  shows "rooms_in_join_order now (db_of (join_room now u b d))"
proof (cases "\<exists>e. reply_of (join_room now u b d) = Inl e")
  case True
  then have "db_of (join_room now u b d) = d"
    by (auto simp: join_room_def outcome_defs Let_def split: option.splits if_splits)
  then show ?thesis using assms by simp
next
  case False
  then obtain rid pn r where r: "findById rid d = Some r"
    and d': "db_of (join_room now u b d) =
               save (r\<lparr>players := players r @ [new_player now u pn b]\<rparr>) d"
    by (auto simp: join_room_def outcome_defs Let_def split: option.splits if_splits)
  have "in_join_order now r"
    using r assms unfolding rooms_in_join_order_def by (rule findById_list_all)
  then show ?thesis using assms unfolding d' rooms_in_join_order_def
    by (intro save_list_all) (auto simp: in_join_order_def new_player_def sorted_append list_all_iff)
qed

lemma leave_room_join_order:
  assumes "rooms_in_join_order now d"
  shows "rooms_in_join_order now (db_of (leave_room u b d))"
proof (cases "b_roomId b")
  case None
  then show ?thesis using assms by (simp add: leave_room_def db_of_def)
next
  case (Some rid)
  show ?thesis
  proof (cases "findById rid d")
    case None
    then show ?thesis using assms Some by (simp add: leave_room_def db_of_def)
  next
    case (Some r)
    have ok: "in_join_order now r"
      using Some assms unfolding rooms_in_join_order_def by (rule findById_list_all)
    show ?thesis
    proof (cases "filter (\<lambda>p. userId p \<noteq> u) (players r)")
      case Nil
      then show ?thesis using assms Some \<open>b_roomId b = Some rid\<close>
        by (simp add: leave_room_def db_of_def rooms_in_join_order_def delete_list_all)
    next
      case (Cons p0 ps)
      have "sorted (map joinedAt (filter (\<lambda>p. userId p \<noteq> u) (players r)))"
        using ok by (simp add: in_join_order_def sorted_filter)
      moreover have "list_all (\<lambda>p. joinedAt p \<le> now) (filter (\<lambda>p. userId p \<noteq> u) (players r))"
        using ok by (auto simp: in_join_order_def list_all_iff)
      ultimately have
        "in_join_order now (r\<lparr>players := p0 # ps, host := (if host r = u then userId p0 else host r)\<rparr>)"
        unfolding Cons by (simp add: in_join_order_def)
      then show ?thesis using assms Some Cons \<open>b_roomId b = Some rid\<close>
        by (simp add: leave_room_def db_of_def rooms_in_join_order_def save_list_all Let_def)
    qed
  qed
qed

lemma handle_join_order:
  "rooms_in_join_order t d \<Longrightarrow> t \<le> now \<Longrightarrow> rooms_in_join_order now (db_of (handle now rq d))"
  using rooms_in_join_order_later [of t d now]
  by (cases rq) (simp_all add: create_room_join_order join_room_join_order leave_room_join_order)

lemma run_join_order:
  "rooms_in_join_order t d \<Longrightarrow> sorted (map fst rqs) \<Longrightarrow> list_all (\<lambda>x. t \<le> fst x) rqs \<Longrightarrow>
     \<exists>t'. rooms_in_join_order t' (run d rqs)"
proof (induction rqs arbitrary: t d)
  case Nil
  then show ?case by auto
next
  case (Cons x rqs)
  have step: "rooms_in_join_order (fst x) (db_of (handle (fst x) (snd x) d))"
    using Cons.prems by (simp add: handle_join_order)
  have "list_all (\<lambda>y. fst x \<le> fst y) rqs"
    using Cons.prems(2) by (auto simp: list_all_iff)
  then show ?case using Cons.IH [OF step] Cons.prems(2) by simp
qed

lemma find_saved:
  "find (\<lambda>r. room_id r = rid) rs = Some r \<Longrightarrow> room_id r' = rid \<Longrightarrow>
     find (\<lambda>r. room_id r = rid) (map (\<lambda>x. if room_id x = rid then r' else x) rs) = Some r'"
  by (induction rs) (auto split: if_splits)

lemma findById_saved:
  "findById rid d = Some r \<Longrightarrow> room_id r' = rid \<Longrightarrow> findById rid (save r' d) = Some r'"
  by (simp add: findById_def save_def find_saved)

subsection \<open>The database in the other two versions\<close>

text \<open>
  The create and leave routes of the three versions, and the join route of the
  MongoDB-driver version, change the database alike; the join route on Firestore never
  changes it.
\<close>

lemma create_room_mongo_db: "db_of (create_room_mongo now u b d) = db_of (create_room now u b d)"
  by (simp add: create_room_mongo_def create_room_def db_of_def Let_def split: option.splits)

lemma create_room_firestore_db:
  "db_of (create_room_firestore now u b d) = db_of (create_room now u b d)"
  by (simp add: create_room_firestore_def create_room_def db_of_def Let_def split: option.splits)

lemma join_room_mongo_db: "db_of (join_room_mongo now u b d) = db_of (join_room now u b d)"
  by (simp add: join_room_mongo_def join_room_def db_of_def Let_def split: option.splits)

lemma join_room_firestore_db:
  "db_of (join_room_firestore now u b d) = d
   \<and> (\<exists>e. reply_of (join_room_firestore now u b d) = Inl e)"
  by (simp add: join_room_firestore_def outcome_defs split: option.splits)

lemma map_replace_twice:
  "room_id r' = room_id r \<Longrightarrow>
     map (\<lambda>x. if room_id x = room_id r' then r' else x) (map (\<lambda>x. if room_id x = room_id r then r else x) rs)
       = map (\<lambda>x. if room_id x = room_id r' then r' else x) rs"
  by (induction rs) simp_all

lemma save_twice: "room_id r' = room_id r \<Longrightarrow> save r' (save r d) = save r' d"
  by (simp add: save_def map_replace_twice)

lemma filter_replaced:
  "filter (\<lambda>x. room_id x \<noteq> room_id r) (map (\<lambda>x. if room_id x = room_id r then r else x) rs)
     = filter (\<lambda>x. room_id x \<noteq> room_id r) rs"
  by (induction rs) simp_all

lemma delete_saved: "findByIdAndDelete (room_id r) (save r d) = findByIdAndDelete (room_id r) d"
  by (simp add: save_def findByIdAndDelete_def filter_replaced)

lemma leave_room_firestore_db:
  "db_of (leave_room_firestore u b d) = db_of (leave_room u b d)"
  by (simp add: leave_room_firestore_def leave_room_def db_of_def Let_def
      split: option.splits list.splits)

lemma leave_room_mongo_db: "db_of (leave_room_mongo u b d) = db_of (leave_room u b d)"
proof (cases "b_roomId b")
  case None
  then show ?thesis by (simp add: leave_room_mongo_def leave_room_def db_of_def)
next
  case (Some rid)
  show ?thesis
  proof (cases "findById rid d")
    case None
    then show ?thesis using Some by (simp add: leave_room_mongo_def leave_room_def db_of_def)
  next
    case found: (Some r)
    have rid: "room_id r = rid" using found by (simp add: findById_in_rooms)
    show ?thesis
    proof (cases "filter (\<lambda>p. userId p \<noteq> u) (players r)")
      case Nil
      then show ?thesis using Some found rid delete_saved [of "r\<lparr>players := []\<rparr>" d]
        by (simp add: leave_room_mongo_def leave_room_def db_of_def Let_def)
    next
      case (Cons p0 ps)
      then show ?thesis using Some found
          save_twice [of "r\<lparr>players := p0 # ps, host := userId p0\<rparr>" "r\<lparr>players := p0 # ps\<rparr>" d]
        by (simp add: leave_room_mongo_def leave_room_def db_of_def Let_def)
    qed
  qed
qed

subsection \<open>What the other two versions send\<close>

lemma create_room_mongo_password:
  "reply_of (create_room_mongo 5 ''u1'' warriors_body (init lobby_users)) =
     Inr (RoomJson
        \<lparr>s_id = Some 0, s_name = ''Warriors'', s_host = HostName ''alice'',
         s_players = [\<lparr>userId = ''u1'', playerName = ''alice'', characterClass = ''Warrior'',
                       level = 1, joinedAt = 5\<rparr>],
         s_maxPlayers = 2, s_isPublic = True, s_status = Waiting,
         s_password = Some ''secret'', s_createdAt = 5\<rparr>)"
  by (simp add: warriors_body_def lobby_users_def no_body_def init_def create_room_mongo_def
      new_room_def new_player_def outcome_defs
      js_defs collection_defs Let_def)

lemma leave_room_mongo_stale_host:
  "events_of (leave_room_mongo ''u1'' room0_body warriors_lobby) =
     [EmitTo 0 ''player-left'' (Snapshot
        \<lparr>s_id = Some 0, s_name = ''Warriors'', s_host = HostId ''u1'',
         s_players = [\<lparr>userId = ''u2'', playerName = ''Bob'', characterClass = ''Warrior'',
                       level = 1, joinedAt = 6\<rparr>],
         s_maxPlayers = 2, s_isPublic = True, s_status = Waiting,
         s_password = Some ''secret'', s_createdAt = 5\<rparr>)]
   \<and> map host (rooms (db_of (leave_room_mongo ''u1'' room0_body warriors_lobby))) = [''u2'']"
  by (simp add: warriors_lobby_def lobby_users_def warriors_body_def bob_body_def no_body_def
      init_def room0_body_def route_defs leave_room_mongo_def outcome_defs js_defs
      collection_defs
      Let_def)

lemma create_room_firestore_private:
  "events_of (create_room_firestore 5 ''u1'' private_body (init lobby_users)) =
     [Emit ''room-created'' (Snapshot
        \<lparr>s_id = Some 0, s_name = ''Private'', s_host = HostName ''alice'',
         s_players = [\<lparr>userId = ''u1'', playerName = ''alice'', characterClass = ''Warrior'',
                       level = 1, joinedAt = 5\<rparr>],
         s_maxPlayers = 4, s_isPublic = False, s_status = Waiting,
         s_password = None, s_createdAt = 5\<rparr>)]"
  by (simp add: private_body_def lobby_users_def no_body_def init_def create_room_firestore_def
      new_room_def new_player_def outcome_defs
      js_defs collection_defs Let_def)

lemma leave_room_mongo_sole:
  assumes "b_roomId b = Some rid" and "findById rid d = Some r"
    and "filter (\<lambda>p. userId p \<noteq> u) (players r) = []"
  shows "events_of (leave_room_mongo u b d) = [Emit ''room-closed'' (RoomId rid)]
         \<and> findById rid (db_of (leave_room_mongo u b d)) = None"
  using assms
  by (simp add: leave_room_mongo_def outcome_defs Let_def findById_deleted)

subsection \<open>The password in what index.js sends\<close>

lemma create_room_no_password:
  "reply_of (create_room now u b d) = Inr (RoomJson s) \<Longrightarrow> s_password s = None"
  by (auto simp: create_room_def reply_of_def select_no_password_def Let_def split: option.splits)

lemma join_room_no_password:
  "reply_of (join_room now u b d) = Inr (RoomJson s) \<Longrightarrow> s_password s = None"
  by (auto simp: join_room_def reply_of_def select_no_password_def Let_def
      split: option.splits if_splits)

lemma list_rooms_no_password: "s \<in> set (list_rooms d) \<Longrightarrow> s_password s = None"
  by (auto simp: list_rooms_def select_no_password_def)

subsection \<open>The join route between its awaits\<close>

lemma join_room_split: "join_room now u b d = join_finish (join_read now u b d) d"
  by (simp add: join_room_def join_read_def join_finish_def join_write_def Let_def
      split: option.splits)

lemma joins_in_turn_join_room:
  "joins_in_turn t1 u1 b1 t2 u2 b2 d =
     (reply_of (join_room t1 u1 b1 d),
      reply_of (join_room t2 u2 b2 (db_of (join_room t1 u1 b1 d))),
      db_of (join_room t2 u2 b2 (db_of (join_room t1 u1 b1 d))))"
  by (simp add: joins_in_turn_def join_room_split Let_def)

lemma join_read_admitted:
  assumes "join_read now u b d = Admitted rid p" and "findById rid d = Some r"
  shows "b_roomId b = Some rid \<and> truthy_str (b_playerName b) \<noteq> None \<and> status r = Waiting
         \<and> of_nat (length (players r)) < maxPlayers r"
  using assms
  by (auto simp: join_read_def split: option.splits if_splits)

lemma join_write_found:
  assumes "findById rid d = Some r"
  shows "\<exists>s. join_write rid p d =
            (Inr (RoomJson s), save (r\<lparr>players := players r @ [p]\<rparr>) d,
             [EmitTo rid ''player-joined'' (Snapshot s)])
         \<and> findById rid (save (r\<lparr>players := players r @ [p]\<rparr>) d)
             = Some (r\<lparr>players := players r @ [p]\<rparr>)"
proof -
  have "room_id r = rid" using assms by (simp add: findById_in_rooms)
  then have "findById rid (save (r\<lparr>players := players r @ [p]\<rparr>) d)
               = Some (r\<lparr>players := players r @ [p]\<rparr>)"
    using assms by (simp add: findById_saved)
  then show ?thesis using assms by (simp add: join_write_def Let_def)
qed

text \<open>
  When both joins are read before either is written, both are written: given one
  free place, the room ends with one player more than \<open>maxPlayers\<close>, and neither reply
  is an error.
\<close>

lemma joins_interleaved_overfill:
  assumes "findById rid d = Some r" and "of_nat (length (players r)) + 1 = maxPlayers r"
    and "join_read t1 u1 b1 d = Admitted rid p1" and "join_read t2 u2 b2 d = Admitted rid p2"
  shows "\<exists>s1 s2 d'. joins_interleaved t1 u1 b1 t2 u2 b2 d = (Inr (RoomJson s1), Inr (RoomJson s2), d')
           \<and> map_option players (findById rid d') = Some (players r @ [p1, p2])
           \<and> of_nat (length (players r @ [p1, p2])) = maxPlayers r + 1"
proof -
  let ?r1 = "r\<lparr>players := players r @ [p1]\<rparr>"
  let ?d1 = "save ?r1 d"
  let ?r2 = "?r1\<lparr>players := players ?r1 @ [p2]\<rparr>"
  obtain s1 where w1: "join_write rid p1 d =
      (Inr (RoomJson s1), ?d1, [EmitTo rid ''player-joined'' (Snapshot s1)])"
    and f1: "findById rid ?d1 = Some ?r1"
    using join_write_found [OF assms(1), of p1] by blast
  obtain s2 where w2: "join_write rid p2 ?d1 =
      (Inr (RoomJson s2), save ?r2 ?d1, [EmitTo rid ''player-joined'' (Snapshot s2)])"
    and f2: "findById rid (save ?r2 ?d1) = Some ?r2"
    using join_write_found [OF f1, of p2] by blast
  have "joins_interleaved t1 u1 b1 t2 u2 b2 d = (Inr (RoomJson s1), Inr (RoomJson s2), save ?r2 ?d1)"
    using assms(3,4) w1 w2 by (simp add: joins_interleaved_def join_finish_def outcome_defs)
  moreover have "rat_of_nat (length (players r @ [p1, p2])) = maxPlayers r + 1"
    using assms(2) by simp
  ultimately show ?thesis using f2 by simp
qed

subsection \<open>A capacity with a fraction\<close>

lemma not_whole_half: "\<not> whole (1 / 2)"
proof -
  have "\<lfloor>(1::rat) / 2\<rfloor> = 0" by (rule floor_unique) simp_all
  then show ?thesis by (simp add: whole_def)
qed

lemma half_capacity_breaks_invariant:
  "\<not> whole_capacity (Create ''u1'' half_capacity_body)
   \<and> \<not> rooms_ok (db_of (create_room 5 ''u1'' half_capacity_body (init lobby_users)))"
proof -
  have "\<not> whole_capacity (Create ''u1'' half_capacity_body)"
    by (simp add: whole_capacity_def half_capacity_body_def no_body_def not_whole_half)
  moreover have "\<not> rooms_ok (db_of (create_room 5 ''u1'' half_capacity_body (init lobby_users)))"
    by (simp add: half_capacity_body_def lobby_users_def no_body_def init_def route_defs
        outcome_defs js_defs collection_defs Let_def rooms_ok_def room_ok_def)
  ultimately show ?thesis by (intro conjI)
qed

section \<open>The claims\<close>

text \<open>
  C1. No payload sent to a client contains the room's password. The create, join and
  list routes of index.js remove it (\<open>create_room_no_password\<close>,
  \<open>join_room_no_password\<close>, \<open>list_rooms_no_password\<close>), the leave route does not:
  when Bob leaves the room that Alice protected with the password \<open>secret\<close>, the
  \<open>player-left\<close> event carries the password to the room's subscribers.
\<close>

theorem player_left_carries_password:
  "events_of (leave_room ''u2'' room0_body warriors_lobby) =
     [EmitTo 0 ''player-left'' (Snapshot
        \<lparr>s_id = Some 0, s_name = ''Warriors'', s_host = HostId ''u1'',
         s_players = [\<lparr>userId = ''u1'', playerName = ''alice'', characterClass = ''Warrior'',
                       level = 1, joinedAt = 5\<rparr>],
         s_maxPlayers = 2, s_isPublic = True, s_status = Waiting,
         s_password = Some ''secret'', s_createdAt = 5\<rparr>)]"
  by (simp add: warriors_lobby_def lobby_users_def warriors_body_def bob_body_def no_body_def
      init_def room0_body_def route_defs outcome_defs js_defs collection_defs Let_def)

text \<open>
  C2, as stated, fails: a create request with \<open>maxPlayers = -1\<close> is accepted and
  registers a room with one player and a capacity of \<open>-1\<close>.
\<close>

theorem negative_capacity_breaks_invariant:
  "rooms_ok (init lobby_users) \<and>
   \<not> rooms_ok (db_of (create_room 5 ''u1'' negative_capacity_body (init lobby_users)))"
  by (simp add: negative_capacity_body_def lobby_users_def no_body_def init_def route_defs
      outcome_defs js_defs collection_defs Let_def
      rooms_ok_def room_ok_def)

text \<open>
  C2 (amended). When requests are handled one at a time, and no create request
  supplies a \<open>maxPlayers\<close> that is negative or not a whole number, every room of the
  registry has between one and \<open>maxPlayers\<close> players and a host among them, after every
  run of create, join and leave requests from the empty registry; and such requests keep
  the invariant from any database that satisfies it and whose rooms have a whole
  \<open>maxPlayers\<close>.
\<close>

theorem rooms_stay_well_formed:
  assumes "whole_capacities rqs"
  shows "rooms_ok (run (init us) rqs)
         \<and> (rooms_ok d \<and> rooms_whole d \<longrightarrow> rooms_ok (run d rqs))"
proof -
  have step: "\<And>d0. rooms_ok d0 \<and> rooms_whole d0 \<Longrightarrow> rooms_ok (run d0 rqs)"
  proof -
    fix d0
    assume "rooms_ok d0 \<and> rooms_whole d0"
    then have "list_all room_sound (rooms d0)" by (simp add: rooms_sound_iff)
    then have "list_all room_sound (rooms (run d0 rqs))" using assms by (rule run_ok)
    then show "rooms_ok (run d0 rqs)" by (simp add: rooms_sound_iff)
  qed
  show ?thesis using step [of "init us"] step [of d] rooms_ok_init [of us] by blast
qed

theorem rooms_stay_well_formed_witness:
  "whole_capacities [(5, Create ''u1'' warriors_body), (6, Join ''u2'' bob_body)]
   \<and> rooms_ok (run (init lobby_users) [(5, Create ''u1'' warriors_body), (6, Join ''u2'' bob_body)])
   \<and> map length (map players
         (rooms (run (init lobby_users) [(5, Create ''u1'' warriors_body), (6, Join ''u2'' bob_body)])))
       = [2]"
proof -
  have h: "whole_capacities [(5, Create ''u1'' warriors_body), (6, Join ''u2'' bob_body)]"
    by (simp add: whole_capacities_def whole_capacity_def whole_def warriors_body_def no_body_def)
  have n: "map length (map players
         (rooms (run (init lobby_users) [(5, Create ''u1'' warriors_body), (6, Join ''u2'' bob_body)])))
       = [2]"
    by (simp add: lobby_users_def warriors_body_def bob_body_def no_body_def init_def
        route_defs outcome_defs js_defs collection_defs Let_def)
  have "rooms_ok (run (init lobby_users) [(5, Create ''u1'' warriors_body), (6, Join ''u2'' bob_body)])"
    using rooms_stay_well_formed [OF h, of lobby_users "init lobby_users"] by (rule conjunct1)
  then show ?thesis using h n by (intro conjI)
qed

text \<open>
  C3, as stated, fails: the leave route makes the first remaining player of the array
  the host and does not read \<open>joinedAt\<close>. When the clock is set back before Carol joins
  (readings 5, 6, 4), Alice's leave makes Bob the host, who joined at 6, while Carol
  joined at 4.
\<close>

theorem clock_set_back_host:
  "map host (rooms backwards_lobby) = [''u1'']
   \<and> map host (rooms (db_of (leave_room ''u1'' room0_body backwards_lobby))) = [''u2'']
   \<and> map userId (concat (map players (rooms (db_of (leave_room ''u1'' room0_body backwards_lobby)))))
       = [''u2'', ''u3'']
   \<and> map joinedAt (concat (map players (rooms (db_of (leave_room ''u1'' room0_body backwards_lobby)))))
       = [6, 4]"
  by (simp add: backwards_lobby_def backwards_requests_def lobby_users_def party_body_def
      bob_party_body_def carol_party_body_def room0_body_def no_body_def init_def
      route_defs outcome_defs js_defs collection_defs Let_def)

text \<open>
  C3 (amended). When requests are handled one at a time and the clock readings of the
  requests handled so far never decreased, a leave of the host that leaves at least one
  member makes the first remaining player of the array the host, and that player's
  \<open>joinedAt\<close> is the earliest among the remaining members.
\<close>

theorem host_succession:
  assumes "sorted (map fst rqs)" and "d = run (init us) rqs"
    and "b_roomId b = Some rid" and "findById rid d = Some r" and "host r = u"
    and "filter (\<lambda>p. userId p \<noteq> u) (players r) = survivors" and "survivors \<noteq> []"
  shows "\<exists>r' p ps. findById rid (db_of (leave_room u b d)) = Some r' \<and> players r' = survivors
           \<and> survivors = p # ps \<and> host r' = userId p
           \<and> (\<forall>q \<in> set survivors. joinedAt p \<le> joinedAt q)"
proof -
  have "rooms_in_join_order 0 (init us)"
    by (simp add: rooms_in_join_order_def init_def)
  then obtain t where "rooms_in_join_order t d"
    using run_join_order [of 0 "init us" rqs] assms(1,2) by (auto simp: list_all_iff)
  then have "in_join_order t r"
    using assms(4) unfolding rooms_in_join_order_def by (auto intro: findById_list_all)
  then have srt: "sorted (map joinedAt survivors)"
    using assms(6) by (auto simp: in_join_order_def sorted_filter)
  obtain p0 ps where sv: "survivors = p0 # ps" using assms(7) by (cases survivors) auto
  let ?r' = "r\<lparr>players := p0 # ps, host := userId p0\<rparr>"
  have rid: "room_id r = rid" using assms(4) by (simp add: findById_in_rooms)
  have "db_of (leave_room u b d) = save ?r' d"
    using assms(3-6) sv by (simp add: leave_room_def db_of_def Let_def)
  then have "findById rid (db_of (leave_room u b d)) = Some ?r'"
    using assms(4) rid by (simp add: findById_saved)
  moreover have "\<forall>q \<in> set survivors. joinedAt p0 \<le> joinedAt q"
    using srt unfolding sv by auto
  ultimately show ?thesis using sv by (intro exI [of _ ?r'] exI [of _ p0] exI [of _ ps]) simp
qed

theorem host_succession_witness:
  "sorted (map fst party_requests)
   \<and> findById 0 party_lobby = Some party_room
   \<and> host party_room = ''u1''
   \<and> filter (\<lambda>p. userId p \<noteq> ''u1'') (players party_room) = [bob_player, carol_player]
   \<and> map host (rooms (db_of (leave_room ''u1'' room0_body party_lobby))) = [''u2'']
   \<and> (\<exists>r' p ps. findById 0 (db_of (leave_room ''u1'' room0_body party_lobby)) = Some r'
          \<and> players r' = [bob_player, carol_player]
          \<and> [bob_player, carol_player] = p # ps \<and> host r' = userId p
          \<and> (\<forall>q \<in> set [bob_player, carol_player]. joinedAt p \<le> joinedAt q))"
proof -
  have h1: "sorted (map fst party_requests)"
    by (simp add: party_requests_def)
  have h2: "party_lobby = run (init lobby_users) party_requests"
    by (simp add: party_lobby_def)
  have h3: "b_roomId room0_body = Some 0"
    by (simp add: room0_body_def no_body_def)
  have h4: "findById 0 party_lobby = Some party_room"
    by (simp add: party_lobby_def party_requests_def lobby_users_def party_body_def
        bob_party_body_def
      carol_party_body_def no_body_def init_def room0_body_def
      party_room_def alice_player_def bob_player_def carol_player_def route_defs outcome_defs js_defs collection_defs Let_def)
  have h5: "host party_room = ''u1''"
    by (simp add: party_room_def)
  have h6: "filter (\<lambda>p. userId p \<noteq> ''u1'') (players party_room) = [bob_player, carol_player]"
    by (simp add: party_room_def alice_player_def bob_player_def carol_player_def)
  have h7: "[bob_player, carol_player] \<noteq> []"
    by simp
  have "map host (rooms (db_of (leave_room ''u1'' room0_body party_lobby))) = [''u2'']"
    by (simp add: party_lobby_def party_requests_def lobby_users_def party_body_def
        bob_party_body_def
      carol_party_body_def no_body_def init_def room0_body_def
      party_room_def alice_player_def bob_player_def carol_player_def route_defs outcome_defs js_defs collection_defs Let_def)
  then show ?thesis
    using h1 h4 h5 h6 host_succession [OF h1 h2 h3 h4 h5 h6 h7] by simp
qed

text \<open>
  C4, as stated, fails: a create request with a name and \<open>maxPlayers = 0\<close> is accepted; the
  room is registered with the default capacity 4.
\<close>

theorem zero_capacity_accepted:
  "reply_of (create_room 5 ''u1'' zero_capacity_body (init lobby_users)) \<noteq> Inl ValidationError
   \<and> map maxPlayers (rooms (db_of (create_room 5 ''u1'' zero_capacity_body (init lobby_users)))) = [4]"
  by (simp add: zero_capacity_body_def lobby_users_def no_body_def init_def route_defs
      outcome_defs js_defs collection_defs Let_def)

text \<open>
  C4 (amended). A create request fails with a ValidationError exactly when its name is
  missing or empty, whatever \<open>maxPlayers\<close> it supplies; then no room is registered, the
  database is unchanged and nothing is emitted.
\<close>

theorem create_room_validation:
  "(reply_of (create_room now u b d) = Inl ValidationError) = (b_name b = None \<or> b_name b = Some [])
   \<and> (b_name b = None \<or> b_name b = Some [] \<longrightarrow> create_room now u b d = (Inl ValidationError, d, []))"
  by (auto simp: create_room_def reply_of_def truthy_str_def Let_def split: option.splits if_splits)

theorem create_room_validation_witness:
  "b_name (no_body\<lparr>b_maxPlayers := Some 2\<rparr>) = None
   \<and> create_room 5 ''u1'' (no_body\<lparr>b_maxPlayers := Some 2\<rparr>) (init lobby_users)
       = (Inl ValidationError, init lobby_users, [])"
  using create_room_validation [of 5 "''u1''" "no_body\<lparr>b_maxPlayers := Some 2\<rparr>" "init lobby_users"]
  by (simp add: no_body_def)

text \<open>
  C5, as stated, fails: the join route checks first that the request has a room id and
  a player name. A join of the full room \<open>Duel\<close> with an empty player name fails with a
  ValidationError, not with RoomFull.
\<close>

theorem nameless_join_of_full_room:
  "findById 0 duel_lobby = Some duel_room
   \<and> status duel_room = Waiting
   \<and> of_nat (length (players duel_room)) \<ge> maxPlayers duel_room
   \<and> b_roomId nameless_join_body = Some 0
   \<and> join_room 7 ''u2'' nameless_join_body duel_lobby = (Inl ValidationError, duel_lobby, [])"
  by (simp add: duel_lobby_def lobby_users_def duel_body_def no_body_def init_def duel_room_def
      alice_player_def nameless_join_body_def route_defs outcome_defs js_defs collection_defs
      Let_def)

text \<open>
  C5 (amended). A join request that names a player, on an existing room in status
  \<open>waiting\<close> with at least \<open>maxPlayers\<close> players, fails with RoomFull; the database is
  unchanged and nothing is emitted.
\<close>

theorem join_full_room:
  assumes "b_roomId b = Some rid" and "b_playerName b = Some pn" and "pn \<noteq> []"
    and "findById rid d = Some r" and "status r = Waiting"
    and "of_nat (length (players r)) \<ge> maxPlayers r"
  shows "join_room now u b d = (Inl RoomFull, d, [])"
  using assms by (simp add: join_room_def truthy_str_def)

theorem join_full_room_witness:
  "b_roomId bob_body = Some 0 \<and> b_playerName bob_body = Some ''Bob''
   \<and> findById 0 duel_lobby = Some duel_room \<and> status duel_room = Waiting
   \<and> of_nat (length (players duel_room)) \<ge> maxPlayers duel_room
   \<and> join_room 7 ''u2'' bob_body duel_lobby = (Inl RoomFull, duel_lobby, [])"
proof -
  have h1: "b_roomId bob_body = Some 0" and h2: "b_playerName bob_body = Some ''Bob''"
    by (simp_all add: bob_body_def no_body_def)
  have h3: "''Bob'' \<noteq> []" by simp
  have h4: "findById 0 duel_lobby = Some duel_room"
    by (simp add: duel_lobby_def lobby_users_def duel_body_def no_body_def init_def
        duel_room_def alice_player_def route_defs outcome_defs js_defs collection_defs Let_def)
  have h5: "status duel_room = Waiting"
    and h6: "of_nat (length (players duel_room)) \<ge> maxPlayers duel_room"
    by (simp_all add: duel_room_def)
  show ?thesis
    using h1 h2 h4 h5 h6 join_full_room [OF h1 h2 h3 h4 h5 h6, of 7 "''u2''"] by simp
qed

text \<open>
  C6. When the only member of a room leaves, the room is deleted from the registry,
  exactly one event is emitted, \<open>room-closed\<close> with the room's id to every client, and
  afterwards the room is not found: a later leave or (well-formed) join on that id fails
  with NotFound.
\<close>

theorem sole_member_leave:
  assumes "findById rid d = Some r" and "players r = [p]" and "userId p = u"
    and "b_roomId b = Some rid"
  shows "leave_room u b d = (Inr (Message ''Left room successfully''), findByIdAndDelete rid d,
            [Emit ''room-closed'' (RoomId rid)])
         \<and> findById rid (db_of (leave_room u b d)) = None
         \<and> reply_of (leave_room u' b (db_of (leave_room u b d))) = Inl NotFound
         \<and> (b_roomId b' = Some rid \<and> b_playerName b' \<noteq> None \<and> b_playerName b' \<noteq> Some [] \<longrightarrow>
              reply_of (join_room now u' b' (db_of (leave_room u b d))) = Inl NotFound)"
  using assms
  by (auto simp: leave_room_def join_room_def outcome_defs findById_deleted truthy_str_None
      split: option.splits)

theorem sole_member_leave_witness:
  "findById 0 duel_lobby = Some duel_room \<and> players duel_room = [alice_player]
   \<and> userId alice_player = ''u1'' \<and> b_roomId room0_body = Some 0
   \<and> leave_room ''u1'' room0_body duel_lobby =
        (Inr (Message ''Left room successfully''), findByIdAndDelete 0 duel_lobby,
         [Emit ''room-closed'' (RoomId 0)])
   \<and> rooms (db_of (leave_room ''u1'' room0_body duel_lobby)) = []
   \<and> reply_of (leave_room ''u2'' room0_body (db_of (leave_room ''u1'' room0_body duel_lobby)))
        = Inl NotFound
   \<and> reply_of (join_room 9 ''u2'' bob_body (db_of (leave_room ''u1'' room0_body duel_lobby)))
        = Inl NotFound"
proof -
  have h1: "findById 0 duel_lobby = Some duel_room"
    by (simp add: duel_lobby_def lobby_users_def duel_body_def no_body_def init_def
        duel_room_def alice_player_def room0_body_def route_defs outcome_defs js_defs
        collection_defs Let_def)
  have h2: "players duel_room = [alice_player]" by (simp add: duel_room_def)
  have h3: "userId alice_player = ''u1''" by (simp add: alice_player_def)
  have h4: "b_roomId room0_body = Some 0" by (simp add: room0_body_def no_body_def)
  have h5: "b_roomId bob_body = Some 0 \<and> b_playerName bob_body \<noteq> None
              \<and> b_playerName bob_body \<noteq> Some []"
    by (simp add: bob_body_def no_body_def)
  have h6: "rooms (db_of (leave_room ''u1'' room0_body duel_lobby)) = []"
    by (simp add: duel_lobby_def lobby_users_def duel_body_def no_body_def init_def
        duel_room_def alice_player_def room0_body_def route_defs outcome_defs js_defs
        collection_defs Let_def)
  note t = sole_member_leave [OF h1 h2 h3 h4, of "''u2''" bob_body 9]
  have t1: "leave_room ''u1'' room0_body duel_lobby =
        (Inr (Message ''Left room successfully''), findByIdAndDelete 0 duel_lobby,
         [Emit ''room-closed'' (RoomId 0)])"
    using t by (rule conjunct1)
  have t2: "reply_of (leave_room ''u2'' room0_body (db_of (leave_room ''u1'' room0_body duel_lobby)))
        = Inl NotFound"
    using t by blast
  have t3: "reply_of (join_room 9 ''u2'' bob_body (db_of (leave_room ''u1'' room0_body duel_lobby)))
        = Inl NotFound"
    using t h5 by blast
  show ?thesis
    using h1 h2 h3 h4 h6 t1 t2 t3 by (intro conjI)
qed




text \<open>
  C8, as stated, fails: nothing keeps two join handlers from interleaving at their
  awaits. With Alice alone in a room of two places, the joins of Bob and of Carol are
  both read before either is written: both answer with the room, neither with RoomFull,
  and the room holds three players.
\<close>

theorem interleaved_joins_overfill:
  "findById 0 pair_lobby = Some pair_room
   \<and> length (players pair_room) = 1 \<and> maxPlayers pair_room = 2
   \<and> \<not> isl (fst (joins_interleaved 6 ''u2'' bob_party_body 8 ''u3'' carol_party_body pair_lobby))
   \<and> \<not> isl (fst (snd (joins_interleaved 6 ''u2'' bob_party_body 8 ''u3'' carol_party_body pair_lobby)))
   \<and> map players
        (rooms (snd (snd (joins_interleaved 6 ''u2'' bob_party_body 8 ''u3'' carol_party_body pair_lobby))))
       = [[alice_player, bob_player, carol_player]]
   \<and> map maxPlayers
        (rooms (snd (snd (joins_interleaved 6 ''u2'' bob_party_body 8 ''u3'' carol_party_body pair_lobby))))
       = [2]"
  by (simp add: pair_lobby_def pair_body_def pair_room_def alice_player_def bob_player_def
      carol_player_def bob_party_body_def carol_party_body_def lobby_users_def no_body_def
      init_def joins_interleaved_def join_read_def join_finish_def join_write_def
      route_defs outcome_defs js_defs collection_defs Let_def)

text \<open>
  C8 (amended). Two joins on a room with exactly one free place, each of which would be
  admitted alone: when they are handled in turn (the second is read after the first is
  written), the first succeeds, the second fails with RoomFull, and afterwards the
  room has \<open>maxPlayers\<close> players.
\<close>

theorem joins_in_turn_one_succeeds:
  assumes "findById rid d = Some r" and "of_nat (length (players r)) + 1 = maxPlayers r"
    and "join_read t1 u1 b1 d = Admitted rid p1" and "join_read t2 u2 b2 d = Admitted rid p2"
  shows "\<exists>s d'. joins_in_turn t1 u1 b1 t2 u2 b2 d = (Inr (RoomJson s), Inl RoomFull, d')
           \<and> d' = db_of (join_room t1 u1 b1 d)
           \<and> map_option players (findById rid d') = Some (players r @ [p1])
           \<and> of_nat (length (players r @ [p1])) = maxPlayers r"
proof -
  let ?r1 = "r\<lparr>players := players r @ [p1]\<rparr>"
  let ?d1 = "save ?r1 d"
  obtain s where w1: "join_write rid p1 d =
      (Inr (RoomJson s), ?d1, [EmitTo rid ''player-joined'' (Snapshot s)])"
    and f1: "findById rid ?d1 = Some ?r1"
    using join_write_found [OF assms(1), of p1] by blast
  have o1: "join_finish (join_read t1 u1 b1 d) d =
      (Inr (RoomJson s), ?d1, [EmitTo rid ''player-joined'' (Snapshot s)])"
    using assms(3) w1 by (simp add: join_finish_def)
  have b2: "b_roomId b2 = Some rid \<and> truthy_str (b_playerName b2) \<noteq> None \<and> status r = Waiting"
    using join_read_admitted [OF assms(4) assms(1)] by simp
  have full: "rat_of_nat (length (players ?r1)) = maxPlayers ?r1"
    using assms(2) by simp
  have a2: "join_read t2 u2 b2 ?d1 = Rejected RoomFull"
    using b2 f1 full by (auto simp: join_read_def split: option.splits)
  have "joins_in_turn t1 u1 b1 t2 u2 b2 d = (Inr (RoomJson s), Inl RoomFull, ?d1)"
    using o1 a2 by (simp add: joins_in_turn_def join_finish_def outcome_defs)
  moreover have "db_of (join_room t1 u1 b1 d) = ?d1"
    using o1 by (simp add: join_room_split db_of_def)
  ultimately show ?thesis using f1 full by simp
qed

theorem joins_in_turn_one_succeeds_witness:
  "findById 0 pair_lobby = Some pair_room
   \<and> of_nat (length (players pair_room)) + 1 = maxPlayers pair_room
   \<and> join_read 6 ''u2'' bob_party_body pair_lobby = Admitted 0 bob_player
   \<and> join_read 8 ''u3'' carol_party_body pair_lobby = Admitted 0 carol_player
   \<and> fst (snd (joins_in_turn 6 ''u2'' bob_party_body 8 ''u3'' carol_party_body pair_lobby))
       = Inl RoomFull
   \<and> map players
        (rooms (snd (snd (joins_in_turn 6 ''u2'' bob_party_body 8 ''u3'' carol_party_body pair_lobby))))
       = [[alice_player, bob_player]]"
proof -
  have h1: "findById 0 pair_lobby = Some pair_room"
    by (simp add: pair_lobby_def pair_body_def pair_room_def alice_player_def lobby_users_def
        no_body_def init_def route_defs outcome_defs js_defs collection_defs Let_def)
  have h2: "of_nat (length (players pair_room)) + 1 = maxPlayers pair_room"
    by (simp add: pair_room_def)
  have h3: "join_read 6 ''u2'' bob_party_body pair_lobby = Admitted 0 bob_player"
    using h1
    by (simp add: join_read_def pair_room_def alice_player_def bob_player_def
        bob_party_body_def no_body_def new_player_def js_defs)
  have h4: "join_read 8 ''u3'' carol_party_body pair_lobby = Admitted 0 carol_player"
    using h1
    by (simp add: join_read_def pair_room_def alice_player_def carol_player_def
        carol_party_body_def no_body_def new_player_def js_defs)
  obtain s d' where t: "joins_in_turn 6 ''u2'' bob_party_body 8 ''u3'' carol_party_body pair_lobby
        = (Inr (RoomJson s), Inl RoomFull, d')"
    using joins_in_turn_one_succeeds [OF h1 h2 h3 h4] by blast
  have r: "fst (snd (joins_in_turn 6 ''u2'' bob_party_body 8 ''u3'' carol_party_body pair_lobby))
       = Inl RoomFull"
    unfolding t by simp
  have p: "map players
        (rooms (snd (snd (joins_in_turn 6 ''u2'' bob_party_body 8 ''u3'' carol_party_body pair_lobby))))
       = [[alice_player, bob_player]]"
    by (simp add: pair_lobby_def pair_body_def alice_player_def bob_player_def
        bob_party_body_def carol_party_body_def lobby_users_def no_body_def init_def
        joins_in_turn_def join_read_def join_finish_def join_write_def
        route_defs outcome_defs js_defs collection_defs Let_def)
  show ?thesis using h1 h2 h3 h4 r p by (intro conjI)
qed

text \<open>
  C9. In the room registered by a successful create, \<open>maxPlayers\<close> is 4 when the request
  omits it or supplies 0, \<open>isPublic\<close> is true unless the request supplies exactly
  \<open>false\<close>, and the creator, who is the host and the only player, has the class
  \<open>Warrior\<close> and the level 1 when the request omits them (or supplies an empty class, or
  level 0).
\<close>

theorem create_room_defaults:
  assumes "reply_of (create_room now u b d) = Inr rep"
  shows "\<exists>r p. rooms (db_of (create_room now u b d)) = rooms d @ [r] \<and> players r = [p]
           \<and> userId p = u \<and> host r = u
           \<and> (b_maxPlayers b = None \<or> b_maxPlayers b = Some 0 \<longrightarrow> maxPlayers r = 4)
           \<and> isPublic r = (b_isPublic b \<noteq> Some False)
           \<and> (b_characterClass b = None \<or> b_characterClass b = Some [] \<longrightarrow>
                characterClass p = ''Warrior'')
           \<and> (b_level b = None \<or> b_level b = Some 0 \<longrightarrow> level p = 1)"
  using assms
  by (auto simp: create_room_def new_room_def new_player_def outcome_defs js_defs
      insert_room_def Let_def split: option.splits)

theorem create_room_defaults_witness:
  "reply_of (create_room 5 ''u1'' open_body (init lobby_users))
     = Inr (RoomJson (select_no_password (populate lobby_users (to_json open_room))))
   \<and> b_maxPlayers open_body = None \<and> b_isPublic open_body = None
   \<and> b_characterClass open_body = None \<and> b_level open_body = None
   \<and> rooms (db_of (create_room 5 ''u1'' open_body (init lobby_users))) = [open_room]
   \<and> maxPlayers open_room = 4 \<and> isPublic open_room
   \<and> map characterClass (players open_room) = [''Warrior'']
   \<and> map level (players open_room) = [1]"
proof -
  have h: "reply_of (create_room 5 ''u1'' open_body (init lobby_users))
     = Inr (RoomJson (select_no_password (populate lobby_users (to_json open_room))))"
    by (simp add: open_body_def lobby_users_def no_body_def init_def open_room_def
        alice_player_def route_defs outcome_defs js_defs collection_defs Let_def)
  have b: "b_maxPlayers open_body = None \<and> b_isPublic open_body = None
     \<and> b_characterClass open_body = None \<and> b_level open_body = None"
    by (simp add: open_body_def no_body_def)
  have r: "rooms (init lobby_users) = []" by (simp add: init_def)
  obtain r' p where "rooms (db_of (create_room 5 ''u1'' open_body (init lobby_users))) = [r']"
    and "players r' = [p]" and "maxPlayers r' = 4" and "isPublic r'"
    and "characterClass p = ''Warrior''" and "level p = 1"
    using create_room_defaults [OF h] b r by auto
  moreover have "rooms (db_of (create_room 5 ''u1'' open_body (init lobby_users))) = [open_room]"
    by (simp add: open_body_def lobby_users_def no_body_def init_def open_room_def
        alice_player_def route_defs outcome_defs js_defs collection_defs Let_def)
  ultimately show ?thesis using h b by simp
qed

text \<open>
  C10. A room created with the empty string as password is stored without password.
  A join on a room whose stored password is absent or empty is accepted whatever
  password the request supplies, when the request has a room id and a player name, the
  room exists, is in status \<open>waiting\<close>, is not full and does not hold the user yet.
\<close>

theorem empty_password_is_none:
  "(b_password b = Some [] \<and> reply_of (create_room now u b d) = Inr rep \<longrightarrow>
      (\<exists>r. rooms (db_of (create_room now u b d)) = rooms d @ [r] \<and> password r = None))
   \<and> (b_roomId b' = Some rid \<and> b_playerName b' = Some pn \<and> pn \<noteq> []
        \<and> findById rid d' = Some r' \<and> status r' = Waiting
        \<and> of_nat (length (players r')) < maxPlayers r'
        \<and> u' \<notin> set (map userId (players r'))
        \<and> (password r' = None \<or> password r' = Some []) \<longrightarrow>
      (\<exists>s. join_room now' u' b' d' =
              (Inr (RoomJson s), db_of (join_room now' u' b' d'),
               [EmitTo rid ''player-joined'' (Snapshot s)])
          \<and> map userId (s_players s) = map userId (players r') @ [u']
          \<and> map_option players (findById rid (db_of (join_room now' u' b' d'))) = Some (s_players s)))"
proof (intro conjI impI)
  assume "b_password b = Some [] \<and> reply_of (create_room now u b d) = Inr rep"
  then show "\<exists>r. rooms (db_of (create_room now u b d)) = rooms d @ [r] \<and> password r = None"
    by (auto simp: create_room_def new_room_def outcome_defs truthy_str_def insert_room_def
        Let_def split: option.splits)
next
  assume a: "b_roomId b' = Some rid \<and> b_playerName b' = Some pn \<and> pn \<noteq> []
        \<and> findById rid d' = Some r' \<and> status r' = Waiting
        \<and> of_nat (length (players r')) < maxPlayers r'
        \<and> u' \<notin> set (map userId (players r'))
        \<and> (password r' = None \<or> password r' = Some [])"
  let ?r = "r'\<lparr>players := players r' @ [new_player now' u' pn b']\<rparr>"
  let ?s = "select_no_password (populate (users (save ?r d')) (to_json ?r))"
  have nf: "find (\<lambda>p. userId p = u') (players r') = None"
    using a by (auto simp: find_None_iff)
  have pw: "truthy_str (password r') = None"
    using a by (auto simp: truthy_str_def)
  have rid: "room_id r' = rid" using a findById_in_rooms by blast
  have j: "join_room now' u' b' d' =
             (Inr (RoomJson ?s), save ?r d', [EmitTo rid ''player-joined'' (Snapshot ?s)])"
    using a nf pw by (simp add: join_room_def truthy_str_def Let_def)
  have "findById rid (save ?r d') = Some ?r"
    using a rid by (simp add: findById_saved)
  moreover have "s_players ?s = players ?r"
    by (simp add: select_no_password_def populate_def to_json_def split: host_json.splits)
  ultimately show "\<exists>s. join_room now' u' b' d' =
              (Inr (RoomJson s), db_of (join_room now' u' b' d'),
               [EmitTo rid ''player-joined'' (Snapshot s)])
          \<and> map userId (s_players s) = map userId (players r') @ [u']
          \<and> map_option players (findById rid (db_of (join_room now' u' b' d'))) = Some (s_players s)"
    using j by (intro exI [of _ ?s]) (simp add: db_of_def new_player_def)
qed

theorem empty_password_is_none_witness:
  "b_password open_body = Some []
   \<and> reply_of (create_room 5 ''u1'' open_body (init lobby_users))
       = Inr (RoomJson (select_no_password (populate lobby_users (to_json open_room))))
   \<and> map password (rooms (db_of (create_room 5 ''u1'' open_body (init lobby_users)))) = [None]
   \<and> b_roomId guess_body = Some 0 \<and> b_playerName guess_body = Some ''Bob''
   \<and> b_password guess_body = Some ''guess''
   \<and> findById 0 open_lobby = Some open_room \<and> status open_room = Waiting
   \<and> of_nat (length (players open_room)) < maxPlayers open_room
   \<and> ''u2'' \<notin> set (map userId (players open_room))
   \<and> password open_room = None
   \<and> (\<exists>s. join_room 6 ''u2'' guess_body open_lobby =
              (Inr (RoomJson s), db_of (join_room 6 ''u2'' guess_body open_lobby),
               [EmitTo 0 ''player-joined'' (Snapshot s)])
          \<and> map userId (s_players s) = [''u1'', ''u2''])"
proof -
  have c1: "b_password open_body = Some []" by (simp add: open_body_def no_body_def)
  have c2: "reply_of (create_room 5 ''u1'' open_body (init lobby_users))
       = Inr (RoomJson (select_no_password (populate lobby_users (to_json open_room))))"
    by (simp add: open_lobby_def lobby_users_def open_body_def no_body_def init_def
        open_room_def alice_player_def route_defs outcome_defs js_defs collection_defs Let_def)
  have c3: "map password (rooms (db_of (create_room 5 ''u1'' open_body (init lobby_users)))) = [None]"
    by (simp add: open_lobby_def lobby_users_def open_body_def no_body_def init_def
        open_room_def alice_player_def route_defs outcome_defs js_defs collection_defs Let_def)
  have j1: "b_roomId guess_body = Some 0" and j2: "b_playerName guess_body = Some ''Bob''"
    and j3: "b_password guess_body = Some ''guess''"
    by (simp_all add: guess_body_def no_body_def)
  have j4: "''Bob'' \<noteq> []" by simp
  have j5: "findById 0 open_lobby = Some open_room"
    by (simp add: open_lobby_def lobby_users_def open_body_def no_body_def init_def
        open_room_def alice_player_def route_defs outcome_defs js_defs collection_defs Let_def)
  have j6: "status open_room = Waiting"
    and j7: "of_nat (length (players open_room)) < maxPlayers open_room"
    and j8: "''u2'' \<notin> set (map userId (players open_room))"
    and j9: "password open_room = None"
    by (simp_all add: open_room_def alice_player_def)
  have ids: "map userId (players open_room) = [''u1'']"
    by (simp add: open_room_def alice_player_def)
  note t = empty_password_is_none [of open_body 5 "''u1''" "init lobby_users"
        "RoomJson (select_no_password (populate lobby_users (to_json open_room)))"
        guess_body 0 "''Bob''" open_lobby open_room "''u2''" 6]
  have "\<exists>s. join_room 6 ''u2'' guess_body open_lobby =
              (Inr (RoomJson s), db_of (join_room 6 ''u2'' guess_body open_lobby),
               [EmitTo 0 ''player-joined'' (Snapshot s)])
          \<and> map userId (s_players s) = map userId (players open_room) @ [''u2'']"
    using t j1 j2 j4 j5 j6 j7 j8 j9 by blast
  then have j: "\<exists>s. join_room 6 ''u2'' guess_body open_lobby =
              (Inr (RoomJson s), db_of (join_room 6 ''u2'' guess_body open_lobby),
               [EmitTo 0 ''player-joined'' (Snapshot s)])
          \<and> map userId (s_players s) = [''u1'', ''u2'']"
    unfolding ids by simp
  show ?thesis
    using c1 c2 c3 j1 j2 j3 j5 j6 j7 j8 j9 j by (intro conjI)
qed

end
